theory Spec2Isabelle
  imports Complex_Main "HOL-Library.Sublist" "HOL-Library.Char_ord" "HOL-Library.List_Lexorder"
    "HOL-Library.Multiset"
begin

section \<open>Smart expense tracker: embedding of app.py and database.py\<close>

text \<open>
  Amounts are SQLite REAL columns and Python floats in the source: binary64 numbers. A
  float is modelled by the real number it denotes, and \<open>fl\<close> below rounds a real to the
  nearest float. The float operations of the forecast, of the statistics module, of the
  anomaly detector and of the insights are rounded by \<open>fl\<close> one by one, as the
  interpreter does; a float literal such as \<open>0.3\<close> is \<open>fl (3/10)\<close>. The SQL aggregate
  \<open>SUM\<close> and the percentage of the budget views are kept exact. NaN, infinities,
  overflow and underflow are outside the model.
  Strings are lists of 8-bit characters; SQLite compares TEXT bytewise, which is the
  lexicographic order on \<open>string\<close> used here.
\<close>

subsection \<open>Python exceptions\<close>

datatype py_error =
  StatisticsError | ZeroDivisionError | ValueError | TypeError | AttributeError | IntegrityError

subsection \<open>Floats, rounding and fixed-point formatting\<close>

text \<open>Round to the nearest integer, ties to the even neighbour.\<close>

definition round_half_even :: "real \<Rightarrow> int" where
  "round_half_even x =
     (let f = \<lfloor>x\<rfloor>; d = x - of_int f
      in if d < 1/2 then f else if 1/2 < d then f + 1 else if even f then f else f + 1)"

text \<open>The binary64 number nearest to a real, ties to the even significand: with
  \<open>2 ^ e \<le> \<bar>x\<bar> < 2 ^ (e + 1)\<close> the floats around \<open>x\<close> are the multiples of
  \<open>2 ^ (e - 52)\<close>. The exponent is not bounded, so this is the float the machine
  computes as long as nothing overflows or underflows.\<close>

definition fl :: "real \<Rightarrow> real" where
  "fl x =
     (if x = 0 then 0
      else let e = \<lfloor>log 2 \<bar>x\<bar>\<rfloor>
           in of_int (round_half_even (x * 2 powi (52 - e))) * 2 powi (e - 52))"

text \<open>\<open>round(x, ndigits)\<close> on a float: the exact value of \<open>x\<close> is rounded to \<open>ndigits\<close>
  decimals, ties to even, and the decimal result is converted back to the nearest
  float.\<close>

definition py_round :: "real \<Rightarrow> nat \<Rightarrow> real" where
  "py_round x ndigits = fl (of_int (round_half_even (x * 10 ^ ndigits)) / 10 ^ ndigits)"

definition digit_char :: "nat \<Rightarrow> char" where
  "digit_char d =
     (if d = 0 then CHR ''0'' else if d = 1 then CHR ''1'' else if d = 2 then CHR ''2''
      else if d = 3 then CHR ''3'' else if d = 4 then CHR ''4'' else if d = 5 then CHR ''5''
      else if d = 6 then CHR ''6'' else if d = 7 then CHR ''7'' else if d = 8 then CHR ''8''
      else CHR ''9'')"

function show_nat :: "nat \<Rightarrow> string" where
  "show_nat n = (if n < 10 then [digit_char n] else show_nat (n div 10) @ [digit_char (n mod 10)])"
  by pat_completeness auto
termination
  by (relation "measure id") auto

declare show_nat.simps [simp del]

text \<open>\<open>f"{x:.pf}"\<close>: the exact value of the float rounded to \<open>p\<close> decimals, ties to even,
  printed as sign, integer part, and \<open>p\<close> fractional digits padded with zeros.\<close>

definition format_fixed :: "nat \<Rightarrow> real \<Rightarrow> string" where
  "format_fixed p x =
     (let n = nat (round_half_even (\<bar>x\<bar> * 10 ^ p));
          ip = n div 10 ^ p;
          fp = show_nat (n mod 10 ^ p)
      in (if x < 0 then ''-'' else '''') @ show_nat ip @
         (if p = 0 then '''' else ''.'' @ replicate (p - length fp) (CHR ''0'') @ fp))"

subsection \<open>The statistics module\<close>

text \<open>\<open>statistics.mean\<close> adds the data as exact fractions, divides exactly and converts
  the quotient to a float; it raises StatisticsError on an empty sequence.\<close>

definition mean :: "real list \<Rightarrow> py_error + real" where
  "mean xs =
     (if xs = [] then Inl StatisticsError else Inr (fl (sum_list xs / real (length xs))))"

text \<open>\<open>statistics.stdev\<close>: the sample variance (divisor \<open>n - 1\<close>) about the exact mean is
  computed as an exact fraction, and its square root is returned correctly rounded (as
  CPython does from 3.11 on); it raises StatisticsError on fewer than two values.\<close>

definition stdev :: "real list \<Rightarrow> py_error + real" where
  "stdev xs =
     (if length xs < 2 then Inl StatisticsError
      else let mu = sum_list xs / real (length xs)
           in Inr (fl (sqrt (sum_list (map (\<lambda>x. (x - mu)\<^sup>2) xs) / real (length xs - 1)))))"

text \<open>The built-in \<open>sum\<close> on floats: the additions are made from left to right, each
  rounded, starting from 0. (From Python 3.12 on the additions are compensated, which
  gives the same float whenever the partial sums are exact.)\<close>

definition py_sum :: "real list \<Rightarrow> real" where
  "py_sum xs = foldl (\<lambda>acc x. fl (acc + x)) 0 xs"

subsection \<open>database.py: tables and queries\<close>

record expense =
  e_id :: nat
  e_amount :: real
  e_description :: string
  e_category :: string
  e_date :: string
  e_notes :: "string option"
  e_created_at :: string

text \<open>The database file: the rows of \<open>expenses\<close> in insertion order, the AUTOINCREMENT
  counter SQLite keeps for it in \<open>sqlite_sequence\<close> (no row: \<open>None\<close>), and the rows
  (category, amount, updated_at) of \<open>budgets\<close>.\<close>

record database =
  expenses :: "expense list"
  sqlite_sequence :: "nat option"
  budgets :: "(string \<times> real \<times> string) list"

definition empty_database :: database where
  "empty_database = \<lparr>expenses = [], sqlite_sequence = None, budgets = []\<rparr>"

text \<open>An optional query argument is used by \<open>if arg:\<close>, so \<open>None\<close> and the empty string
  both leave the filter out.\<close>

definition selected :: "string option \<Rightarrow> string option \<Rightarrow> string option \<Rightarrow> expense \<Rightarrow> bool" where
  "selected category start_date end_date e =
     ((case category of None \<Rightarrow> True | Some c \<Rightarrow> c = [] \<or> e_category e = c) \<and>
      (case start_date of None \<Rightarrow> True | Some s \<Rightarrow> s = [] \<or> s \<le> e_date e) \<and>
      (case end_date of None \<Rightarrow> True | Some t \<Rightarrow> t = [] \<or> e_date e \<le> t))"

text \<open>\<open>ORDER BY date DESC\<close>. SQL leaves the order of rows with equal dates to the engine;
  here they come newest row first, as SQLite returns them from a backward scan of the
  index on \<open>date\<close>.\<close>

fun insert_by_date :: "expense \<Rightarrow> expense list \<Rightarrow> expense list" where
  "insert_by_date e [] = [e]"
| "insert_by_date e (x # xs) =
     (if e_date x < e_date e then e # x # xs else x # insert_by_date e xs)"

fun order_by_date_desc :: "expense list \<Rightarrow> expense list" where
  "order_by_date_desc [] = []"
| "order_by_date_desc (e # es) = insert_by_date e (order_by_date_desc es)"

definition db_add_expense ::
  "string \<Rightarrow> database \<Rightarrow> real \<Rightarrow> string option \<Rightarrow> string \<Rightarrow> string option \<Rightarrow> string option
     \<Rightarrow> py_error + (expense \<times> database)" where
  "db_add_expense now db amount description category date notes =
     (let date' = (case date of None \<Rightarrow> now | Some d \<Rightarrow> d);
          created_at = now
      in case description of
           None \<Rightarrow> Inl IntegrityError
         | Some descr \<Rightarrow>
             (let expense_id =
                    Suc (max (case sqlite_sequence db of None \<Rightarrow> 0 | Some s \<Rightarrow> s)
                             (fold max (map e_id (expenses db)) 0));
                  row = \<lparr>e_id = expense_id, e_amount = amount, e_description = descr,
                         e_category = category, e_date = date', e_notes = notes,
                         e_created_at = created_at\<rparr>
              in Inr (row, db\<lparr>expenses := expenses db @ [row],
                               sqlite_sequence := Some expense_id\<rparr>)))"

definition get_all_expenses ::
  "database \<Rightarrow> string option \<Rightarrow> string option \<Rightarrow> string option \<Rightarrow> expense list" where
  "get_all_expenses db category start_date end_date =
     order_by_date_desc (filter (selected category start_date end_date) (expenses db))"

definition delete_all_expenses :: "database \<Rightarrow> nat \<times> database" where
  "delete_all_expenses db =
     (let deleted_count = length (expenses db)
      in (deleted_count, db\<lparr>expenses := [], sqlite_sequence := None\<rparr>))"

definition get_expense_count :: "database \<Rightarrow> nat" where
  "get_expense_count db = length (expenses db)"

text \<open>\<open>INSERT ... ON CONFLICT(category) DO UPDATE\<close>: the row of the category is
  overwritten where it stands, a new category is appended.\<close>

fun upsert_budget :: "string \<Rightarrow> real \<Rightarrow> string \<Rightarrow> (string \<times> real \<times> string) list
    \<Rightarrow> (string \<times> real \<times> string) list" where
  "upsert_budget c a u [] = [(c, a, u)]"
| "upsert_budget c a u ((c', a', u') # rows) =
     (if c' = c then (c, a, u) # rows else (c', a', u') # upsert_budget c a u rows)"

definition db_set_budget :: "string \<Rightarrow> database \<Rightarrow> string \<Rightarrow> real \<Rightarrow> bool \<times> database" where
  "db_set_budget now db category amount =
     (True, db\<lparr>budgets := upsert_budget category amount now (budgets db)\<rparr>)"

definition get_all_budgets :: "database \<Rightarrow> (string \<times> real) list" where
  "get_all_budgets db = map (\<lambda>(c, a, u). (c, a)) (budgets db)"

definition get_budget :: "database \<Rightarrow> string \<Rightarrow> real option" where
  "get_budget db category =
     (case find (\<lambda>(c, a, u). c = category) (budgets db) of
        None \<Rightarrow> None
      | Some (c, a, u) \<Rightarrow> Some a)"

text \<open>\<open>SELECT SUM(amount)\<close> is NULL over no rows, and \<open>result['total'] or 0.0\<close> makes
  that (and a zero sum) \<open>0.0\<close>.\<close>

definition get_total_spent ::
  "database \<Rightarrow> string option \<Rightarrow> string option \<Rightarrow> string option \<Rightarrow> real" where
  "get_total_spent db category start_date end_date =
     (case filter (selected category start_date end_date) (expenses db) of
        [] \<Rightarrow> 0
      | rows \<Rightarrow> (let total = sum_list (map e_amount rows) in if total = 0 then 0 else total))"

text \<open>\<open>GROUP BY category ORDER BY total DESC\<close>: one row (category, total, count) per
  category that has an expense.\<close>

definition category_row :: "expense list \<Rightarrow> string \<Rightarrow> string \<times> real \<times> nat" where
  "category_row es c =
     (let rows = filter (\<lambda>e. e_category e = c) es
      in (c, sum_list (map e_amount rows), length rows))"

fun insert_by_total :: "string \<times> real \<times> nat \<Rightarrow> (string \<times> real \<times> nat) list
    \<Rightarrow> (string \<times> real \<times> nat) list" where
  "insert_by_total r [] = [r]"
| "insert_by_total r (x # xs) =
     (if fst (snd x) \<le> fst (snd r) then r # x # xs else x # insert_by_total r xs)"

fun order_by_total_desc :: "(string \<times> real \<times> nat) list \<Rightarrow> (string \<times> real \<times> nat) list" where
  "order_by_total_desc [] = []"
| "order_by_total_desc (r # rs) = insert_by_total r (order_by_total_desc rs)"

definition get_spending_by_category :: "database \<Rightarrow> (string \<times> real \<times> nat) list" where
  "get_spending_by_category db =
     order_by_total_desc
       (map (category_row (expenses db)) (remdups (map e_category (expenses db))))"

subsection \<open>app.py: the forecast\<close>

text \<open>The argument is the dictionary \<open>get_monthly_spending()\<close> returns: (month, total)
  in descending month order.\<close>

definition predict_next_month_spending :: "(string \<times> real) list \<Rightarrow> py_error + real" where
  "predict_next_month_spending monthly_spending =
     (if monthly_spending = [] then Inr 0
      else if length monthly_spending < 2 then
        (case map snd monthly_spending of [] \<Rightarrow> Inr 0 | v # _ \<Rightarrow> Inr v)
      else
        (let totals = map snd monthly_spending
         in case mean totals of
              Inl err \<Rightarrow> Inl err
            | Inr avg \<Rightarrow>
                if 3 \<le> length totals then
                  (case mean (take 3 totals) of
                     Inl err \<Rightarrow> Inl err
                   | Inr recent_avg \<Rightarrow>
                       (let trend = fl (fl (recent_avg - avg) * fl (3 / 10))
                        in Inr (py_round (fl (avg + trend)) 2)))
                else Inr (py_round avg 2)))"

subsection \<open>app.py: the categorizer\<close>

text \<open>The dictionary in its declaration order, which is the order its items are
  iterated in.\<close>

definition CATEGORY_KEYWORDS :: "(string \<times> string list) list" where
  "CATEGORY_KEYWORDS =
     [(''food'', [''restaurant'', ''cafe'', ''food'', ''pizza'', ''burger'', ''lunch'', ''dinner'',
                  ''breakfast'', ''starbucks'', ''mcdonalds'', ''subway'', ''kfc'']),
      (''transport'', [''uber'', ''lyft'', ''gas'', ''fuel'', ''parking'', ''taxi'', ''metro'', ''bus'',
                       ''train'', ''ola'']),
      (''shopping'', [''amazon'', ''walmart'', ''target'', ''mall'', ''store'', ''shop'', ''clothing'',
                      ''shoes'', ''flipkart'']),
      (''entertainment'', [''netflix'', ''spotify'', ''movie'', ''cinema'', ''game'', ''concert'',
                           ''theater'', ''prime'']),
      (''utilities'', [''electricity'', ''water'', ''internet'', ''phone'', ''wifi'', ''bill'']),
      (''health'', [''pharmacy'', ''hospital'', ''doctor'', ''medical'', ''gym'', ''fitness'',
                    ''medicine'']),
      (''education'', [''book'', ''course'', ''tuition'', ''school'', ''university'', ''training'',
                       ''udemy''])]"

text \<open>\<open>str.lower\<close> on ASCII text: the letters A to Z are mapped, every other character
  is kept (case mappings of characters outside ASCII are not modelled).\<close>

definition lower_char :: "char \<Rightarrow> char" where
  "lower_char c =
     (case map_of (zip ''ABCDEFGHIJKLMNOPQRSTUVWXYZ'' ''abcdefghijklmnopqrstuvwxyz'') c of
        None \<Rightarrow> c
      | Some l \<Rightarrow> l)"

definition lower :: "string \<Rightarrow> string" where
  "lower s = map lower_char s"

text \<open>\<open>keyword in text\<close>: the keyword occurs at some position of the text.\<close>

fun starts_with :: "string \<Rightarrow> string \<Rightarrow> bool" where
  "starts_with [] s = True"
| "starts_with (k # ks) [] = False"
| "starts_with (k # ks) (c # cs) = (k = c \<and> starts_with ks cs)"

fun contains :: "string \<Rightarrow> string \<Rightarrow> bool" where
  "contains k [] = (k = [])"
| "contains k (c # cs) = (starts_with k (c # cs) \<or> contains k cs)"

text \<open>The inner loop over the keywords of one category, and the outer loop over the
  categories; both return at the first hit.\<close>

fun any_keyword :: "string list \<Rightarrow> string \<Rightarrow> bool" where
  "any_keyword [] description_lower = False"
| "any_keyword (keyword # keywords) description_lower =
     (if contains keyword description_lower then True
      else any_keyword keywords description_lower)"

fun first_category :: "(string \<times> string list) list \<Rightarrow> string \<Rightarrow> string" where
  "first_category [] description_lower = ''other''"
| "first_category ((category, keywords) # rest) description_lower =
     (if any_keyword keywords description_lower then category
      else first_category rest description_lower)"

definition smart_categorize :: "string \<Rightarrow> string" where
  "smart_categorize description =
     (let description_lower = lower description
      in first_category CATEGORY_KEYWORDS description_lower)"

subsection \<open>app.py: anomaly detection\<close>

definition anomaly_reason :: "real \<Rightarrow> real \<Rightarrow> string" where
  "anomaly_reason amount m =
     ''Unusually high amount ($'' @ format_fixed 2 amount @ '' vs average $'' @
     format_fixed 2 m @ '')''"

text \<open>The loop over \<open>expenses[:20]\<close>; an anomaly is the pair of the expense and its
  reason.\<close>

fun scan_anomalies :: "real \<Rightarrow> real \<Rightarrow> expense list \<Rightarrow> (expense \<times> string) list" where
  "scan_anomalies m sd [] = []"
| "scan_anomalies m sd (expn # rest) =
     (if 0 < sd \<and> fl (m + fl (2 * sd)) < e_amount expn
      then (expn, anomaly_reason (e_amount expn) m) # scan_anomalies m sd rest
      else scan_anomalies m sd rest)"

text \<open>The body of \<open>detect_anomalies\<close> on the list the query returned.\<close>

definition detect_anomalies_on :: "expense list \<Rightarrow> py_error + (expense \<times> string) list" where
  "detect_anomalies_on exps =
     (if length exps < 10 then Inr []
      else
        (let amounts = map e_amount exps
         in case mean amounts of
              Inl err \<Rightarrow> Inl err
            | Inr m \<Rightarrow>
                (case (if 1 < length amounts then stdev amounts else Inr 0) of
                   Inl err \<Rightarrow> Inl err
                 | Inr sd \<Rightarrow> Inr (scan_anomalies m sd (take 20 exps)))))"

definition detect_anomalies :: "database \<Rightarrow> py_error + (expense \<times> string) list" where
  "detect_anomalies db = detect_anomalies_on (get_all_expenses db None None None)"

text \<open>What any engine may return for the unfiltered query: the rows of the table in an
  order of descending date.\<close>

definition date_descending :: "database \<Rightarrow> expense list \<Rightarrow> bool" where
  "date_descending db exps =
     (mset exps = mset (expenses db) \<and> sorted_wrt (\<lambda>a b. e_date b \<le> e_date a) exps)"

subsection \<open>app.py: insights\<close>

datatype icon = ChartIcon | TrendIcon | MoneyIcon

record insight =
  i_type :: string
  i_message :: string
  i_icon :: icon

definition category_insight :: "string \<Rightarrow> real \<Rightarrow> real \<Rightarrow> insight" where
  "category_insight top_name top_amount top_percentage =
     \<lparr>i_type = ''category_insight'',
      i_message = ''Your highest spending is on '' @ top_name @ '' ($'' @
        format_fixed 2 top_amount @ '', '' @ format_fixed 1 top_percentage @ ''% of total)'',
      i_icon = ChartIcon\<rparr>"

definition trend_insight :: "real \<Rightarrow> real \<Rightarrow> insight" where
  "trend_insight recent_total daily_avg =
     \<lparr>i_type = ''trend'',
      i_message = ''You've spent $'' @ format_fixed 2 recent_total @ '' this week ($'' @
        format_fixed 2 daily_avg @ ''/day average)'',
      i_icon = TrendIcon\<rparr>"

definition savings_insight :: "real \<Rightarrow> insight" where
  "savings_insight savings_potential =
     \<lparr>i_type = ''savings'',
      i_message = ''By reducing spending by 10%, you could save $'' @
        format_fixed 2 savings_potential @ '' per month'',
      i_icon = MoneyIcon\<rparr>"

text \<open>\<open>max(items, key=total)\<close> keeps the first of several largest items.\<close>

fun max_by_total :: "string \<times> real \<times> nat \<Rightarrow> (string \<times> real \<times> nat) list \<Rightarrow> string \<times> real \<times> nat" where
  "max_by_total best [] = best"
| "max_by_total best (x # xs) =
     (if fst (snd best) < fst (snd x) then max_by_total x xs else max_by_total best xs)"

text \<open>A datetime is a number of microseconds, naive or with a UTC offset.
  \<open>fromisoformat\<close> is the standard library's parser, \<open>None\<close> where it raises ValueError;
  comparing a datetime that has an offset with the naive \<open>datetime.now()\<close> raises
  TypeError. The comprehension raises at the first date that fails.\<close>

datatype py_datetime = Naive int | Aware int

definition seven_days :: int where
  "seven_days = 7 * 86400 * 1000000"

fun recent_only ::
  "(string \<Rightarrow> py_datetime option) \<Rightarrow> int \<Rightarrow> expense list \<Rightarrow> py_error + expense list" where
  "recent_only fromisoformat now [] = Inr []"
| "recent_only fromisoformat now (expn # rest) =
     (case fromisoformat (e_date expn) of
        None \<Rightarrow> Inl ValueError
      | Some (Aware t) \<Rightarrow> Inl TypeError
      | Some (Naive t) \<Rightarrow>
          (case recent_only fromisoformat now rest of
             Inl err \<Rightarrow> Inl err
           | Inr keep \<Rightarrow> Inr (if now - seven_days < t then expn # keep else keep)))"

definition generate_insights ::
  "(string \<Rightarrow> py_datetime option) \<Rightarrow> int \<Rightarrow> database \<Rightarrow> py_error + insight list" where
  "generate_insights fromisoformat now db =
     (let exps = get_all_expenses db None None None
      in if exps = [] then Inr []
         else
           (let category_totals = get_spending_by_category db;
                total_spent = py_sum (map (\<lambda>cat. fst (snd cat)) category_totals)
            in case (case category_totals of
                       [] \<Rightarrow> Inr []
                     | r # rs \<Rightarrow>
                         (let top_category = max_by_total r rs;
                              top_name = fst top_category;
                              top_amount = fst (snd top_category)
                          in if total_spent = 0 then Inl ZeroDivisionError
                             else Inr [category_insight top_name top_amount
                                         (fl (fl (top_amount / total_spent) * 100))])) of
                 Inl err \<Rightarrow> Inl err
               | Inr insights1 \<Rightarrow>
                   (case recent_only fromisoformat now exps of
                      Inl err \<Rightarrow> Inl err
                    | Inr recent_expenses \<Rightarrow>
                        (let insights2 =
                               (if recent_expenses \<noteq> [] then
                                  (let recent_total = py_sum (map e_amount recent_expenses)
                                   in insights1 @
                                      [trend_insight recent_total (fl (recent_total / 7))])
                                else insights1)
                         in if 5 < length exps then
                              (case mean (map e_amount exps) of
                                 Inl err \<Rightarrow> Inl err
                               | Inr avg_expense \<Rightarrow>
                                   Inr (insights2 @
                                        [savings_insight
                                           (fl (fl (avg_expense * fl (1 / 10)) * 30))]))
                            else Inr insights2))))"

subsection \<open>app.py: adding an expense and the budget views\<close>

text \<open>A JSON value of the request body. The fields description, category, notes and
  date are taken to be absent, null or a string; other JSON types in them are not
  modelled.\<close>

datatype jvalue = JNull | JBool bool | JNum real | JStr string | JComposite

datatype jtext = TNull | TStr string

record payload =
  p_amount :: "jvalue option"
  p_description :: "jtext option"
  p_category :: "jtext option"
  p_notes :: "jtext option"
  p_date :: "jtext option"

text \<open>\<open>float(v)\<close>: a number is itself, a boolean is 1 or 0, a string is parsed by
  \<open>str_to_float\<close> (the interpreter's parser; \<open>None\<close> where it raises ValueError), and
  \<open>None\<close>, lists and dictionaries raise TypeError.\<close>

fun py_float :: "(string \<Rightarrow> real option) \<Rightarrow> jvalue \<Rightarrow> py_error + real" where
  "py_float str_to_float (JNum r) = Inr r"
| "py_float str_to_float (JBool b) = Inr (if b then 1 else 0)"
| "py_float str_to_float (JStr s) =
     (case str_to_float s of None \<Rightarrow> Inl ValueError | Some r \<Rightarrow> Inr r)"
| "py_float str_to_float JNull = Inl TypeError"
| "py_float str_to_float JComposite = Inl TypeError"

text \<open>The alert's level and the values its message interpolates.\<close>

record budget_alert =
  a_level :: string
  a_percentage :: real
  a_category :: string
  a_category_total :: real
  a_budget :: real

text \<open>The block under \<open># Check budget\<close> of \<open>add_expense\<close>, run on the database after
  the insert.\<close>

definition check_budget :: "database \<Rightarrow> string \<Rightarrow> budget_alert option" where
  "check_budget db category =
     (case get_budget db category of
        None \<Rightarrow> None
      | Some budget \<Rightarrow>
          if budget = 0 then None
          else
            (let category_total = get_total_spent db (Some category) None None;
                 percentage = category_total / budget * 100
             in if 90 \<le> percentage then
                  Some \<lparr>a_level = (if 100 \<le> percentage then ''critical'' else ''warning''),
                        a_percentage = percentage, a_category = category,
                        a_category_total = category_total, a_budget = budget\<rparr>
                else None))"

datatype body =
  ErrorBody string
| Created expense bool "budget_alert option"

datatype outcome = Http nat body | Unhandled py_error

definition add_expense ::
  "(string \<Rightarrow> real option) \<Rightarrow> string \<Rightarrow> database \<Rightarrow> payload option \<Rightarrow> outcome \<times> database" where
  "add_expense str_to_float now db data =
     (case data of
        None \<Rightarrow> (Http 400 (ErrorBody ''Amount and description are required''), db)
      | Some d \<Rightarrow>
          (case (p_amount d, p_description d) of
             (Some a, Some description) \<Rightarrow>
               (case py_float str_to_float a of
                  Inl ValueError \<Rightarrow> (Http 400 (ErrorBody ''Invalid amount format''), db)
                | Inl err \<Rightarrow> (Unhandled err, db)
                | Inr amount \<Rightarrow>
                    if amount \<le> 0 then (Http 400 (ErrorBody ''Amount must be positive''), db)
                    else
                      (case (case p_category d of
                               Some (TStr c) \<Rightarrow>
                                 if c \<noteq> [] then Inr c
                                 else (case description of
                                         TNull \<Rightarrow> Inl AttributeError
                                       | TStr s \<Rightarrow> Inr (smart_categorize s))
                             | _ \<Rightarrow>
                                 (case description of
                                    TNull \<Rightarrow> Inl AttributeError
                                  | TStr s \<Rightarrow> Inr (smart_categorize s))) of
                         Inl err \<Rightarrow> (Unhandled err, db)
                       | Inr category \<Rightarrow>
                           (let notes = (case p_notes d of
                                           None \<Rightarrow> Some ''''
                                         | Some TNull \<Rightarrow> None
                                         | Some (TStr n) \<Rightarrow> Some n);
                                date = (case p_date d of Some (TStr t) \<Rightarrow> Some t | _ \<Rightarrow> None);
                                descr = (case description of TNull \<Rightarrow> None | TStr s \<Rightarrow> Some s)
                            in case db_add_expense now db amount descr category date notes of
                                 Inl err \<Rightarrow> (Unhandled err, db)
                               | Inr (expense, db') \<Rightarrow>
                                   (Http 201
                                      (Created expense
                                         (case p_category d of
                                            Some (TStr c) \<Rightarrow> c = []
                                          | _ \<Rightarrow> True)
                                         (check_budget db' category)),
                                    db'))))
           | _ \<Rightarrow> (Http 400 (ErrorBody ''Amount and description are required''), db)))"

record budget_state =
  s_budget :: real
  s_spent :: real
  s_remaining :: real
  s_percentage :: real
  s_status :: string

datatype status_view = NoBudgets | Budgets string "(string \<times> budget_state) list"

definition budget_entry :: "database \<Rightarrow> string \<Rightarrow> string \<Rightarrow> real \<Rightarrow> budget_state" where
  "budget_entry db current_month_start category budget =
     (let spent = get_total_spent db (Some category) (Some current_month_start) None;
          percentage = (if 0 < budget then spent / budget * 100 else 0);
          remaining = budget - spent
      in \<lparr>s_budget = budget, s_spent = py_round spent 2, s_remaining = py_round remaining 2,
          s_percentage = py_round percentage 1,
          s_status = (if 100 < percentage then ''exceeded''
                      else if 80 < percentage then ''warning'' else ''good'')\<rparr>)"

text \<open>\<open>current_month\<close> is \<open>datetime.now().strftime('%Y-%m')\<close>.\<close>

definition get_budget_status :: "string \<Rightarrow> database \<Rightarrow> status_view" where
  "get_budget_status current_month db =
     (let all_budgets = get_all_budgets db
      in if all_budgets = [] then NoBudgets
         else
           (let current_month_start = current_month @ ''-01''
            in Budgets current_month
                 (map (\<lambda>(category, budget).
                         (category, budget_entry db current_month_start category budget))
                    all_budgets)))"

subsection \<open>Sample ledgers\<close>

text \<open>Concrete ledgers on which the properties below are evaluated.\<close>

fun sample_rows :: "nat \<Rightarrow> (real \<times> string \<times> string) list \<Rightarrow> expense list" where
  "sample_rows i [] = []"
| "sample_rows i ((a, c, d) # rest) =
     \<lparr>e_id = i, e_amount = a, e_description = ''item'', e_category = c, e_date = d,
      e_notes = Some '''', e_created_at = d\<rparr> # sample_rows (Suc i) rest"

definition sample_ledger :: "(real \<times> string \<times> string) list \<Rightarrow> database" where
  "sample_ledger rows =
     \<lparr>expenses = sample_rows 1 rows, sqlite_sequence = Some (length rows), budgets = []\<rparr>"

definition boundary_ledger :: database where
  "boundary_ledger = sample_ledger
     [(1, ''food'', ''2026-10-01''), (1, ''food'', ''2026-10-02''), (1, ''food'', ''2026-10-03''),
      (1, ''food'', ''2026-10-04''), (1, ''food'', ''2026-10-05''), (1, ''food'', ''2026-10-06''),
      (1, ''food'', ''2026-10-07''), (1, ''food'', ''2026-10-08''), (2, ''food'', ''2026-10-09''),
      (6, ''food'', ''2026-10-10''), (6, ''food'', ''2026-10-11'')]"

definition outlier_ledger :: database where
  "outlier_ledger = sample_ledger
     [(1, ''food'', ''2026-10-01''), (1, ''food'', ''2026-10-02''), (1, ''food'', ''2026-10-03''),
      (1, ''food'', ''2026-10-04''), (1, ''food'', ''2026-10-05''), (1, ''food'', ''2026-10-06''),
      (1, ''food'', ''2026-10-07''), (1, ''food'', ''2026-10-08''), (1, ''food'', ''2026-10-09''),
      (11, ''shopping'', ''2026-10-10''), (2, ''food'', ''2026-10-11'')]"

definition small_ledger :: database where
  "small_ledger = sample_ledger
     [(1, ''food'', ''2026-10-01''), (1, ''food'', ''2026-10-02''), (1000000, ''shopping'', ''2026-10-03'')]"




definition future_ledger :: database where
  "future_ledger =
     \<lparr>expenses = sample_rows 1 [(500, ''food'', ''2026-12-15'')],
      sqlite_sequence = Some 1,
      budgets = [(''food'', 100, ''2026-11-01'')]\<rparr>"

definition day :: int where
  "day = 86400 * 1000000"

text \<open>Datetimes counted from 2026-01-01T00:00:00, for the dates the sample ledgers use.\<close>

definition sample_fromisoformat :: "string \<Rightarrow> py_datetime option" where
  "sample_fromisoformat =
     map_of [(''2026-10-01'', Naive (273 * day)), (''2026-10-02'', Naive (274 * day)),
             (''2026-10-03'', Naive (275 * day)), (''2026-10-04'', Naive (276 * day)),
             (''2026-10-05'', Naive (277 * day)), (''2026-12-15'', Naive (348 * day))]"

definition noon_2026_11_03 :: int where
  "noon_2026_11_03 = 306 * day + 12 * 3600 * 1000000"

definition undated_ledger :: database where
  "undated_ledger = sample_ledger
     [(10, ''food'', ''2026-10-01''), (10, ''food'', ''2026-10-02''), (10, ''food'', ''2026-10-03''),
      (10, ''food'', ''2026-10-04''), (10, ''food'', ''2026-10-05''), (10, ''food'', ''next week'')]"

definition tie_ledger :: database where
  "tie_ledger = sample_ledger
     [(1, ''food'', ''2026-10-01''), (1, ''food'', ''2026-10-02''), (1, ''food'', ''2026-10-03''),
      (1, ''food'', ''2026-10-04''), (1, ''food'', ''2026-10-05''), (1, ''food'', ''2026-10-06''),
      (1, ''food'', ''2026-10-07''), (1, ''food'', ''2026-10-08''), (1, ''food'', ''2026-10-09''),
      (71 / 4, ''shopping'', ''2026-10-10'')]"

section \<open>Properties\<close>

lemmas show_nat_numeral =
  show_nat.simps [of "numeral k" for k] show_nat.simps [of 0] show_nat.simps [of 1]
  show_nat.simps [of "Suc 0"]

subsection \<open>Floats\<close>

text \<open>\<open>round_half_even\<close> returns the nearest integer, and the even one of two that are
  equally near; and the one integer within less than a half is that result.\<close>

lemma round_half_even_nearest:
  "\<bar>x - of_int (round_half_even x)\<bar> \<le> 1 / 2"
  "\<bar>x - of_int (round_half_even x)\<bar> = 1 / 2 \<Longrightarrow> even (round_half_even x)"
  unfolding round_half_even_def Let_def
  by (auto split: if_splits)

lemma round_half_even_unique:
  assumes "of_int k - 1 / 2 < x" and "x < of_int k + 1 / 2"
  shows "round_half_even x = k"
proof -
  have "\<bar>x - of_int (round_half_even x)\<bar> \<le> 1 / 2"
    by (rule round_half_even_nearest)
  with assms have "\<bar>real_of_int (round_half_even x) - of_int k\<bar> < 1"
    by linarith
  then have "\<bar>round_half_even x - k\<bar> < 1"
    by (metis of_int_diff of_int_abs of_int_less_1_iff)
  then show ?thesis by simp
qed

lemma fl_value:
  fixes p :: nat
  assumes "2 ^ 52 \<le> \<bar>x\<bar> * 2 ^ p" and "\<bar>x\<bar> * 2 ^ p < 2 ^ 53"
    and "of_int (round_half_even (x * 2 ^ p)) / 2 ^ p = y"
  shows "fl x = y"
proof -
  from assms(1) have nz: "x \<noteq> 0" by auto
  have lo: "2 powr real_of_int (52 - int p) = 2 ^ 52 / 2 ^ p"
    by (simp add: powr_diff powr_realpow)
  have hi: "2 powr real_of_int (52 - int p + 1) = 2 ^ 53 / 2 ^ p"
  proof -
    have "real_of_int (52 - int p + 1) = 53 - real p" by simp
    then show ?thesis by (simp only: powr_diff) (simp add: powr_realpow)
  qed
  have "2 powr real_of_int (52 - int p) \<le> \<bar>x\<bar>"
    unfolding lo using assms(1) by (simp add: field_simps)
  moreover have "\<bar>x\<bar> < 2 powr real_of_int (52 - int p + 1)"
    unfolding hi using assms(2) by (simp add: field_simps)
  ultimately have e: "\<lfloor>log 2 \<bar>x\<bar>\<rfloor> = 52 - int p"
    using nz by (subst floor_log_eq_powr_iff) auto
  have up: "(2::real) powi (52 - (52 - int p)) = 2 ^ p"
    by simp
  have down: "(2::real) powi (52 - int p - 52) = 1 / 2 ^ p"
    by (simp add: power_int_minus field_simps)
  show ?thesis
    using nz assms(3) by (simp only: fl_def e Let_def up down if_False) simp
qed

lemma fl_zero [simp]: "fl 0 = 0"
  by (simp add: fl_def)

lemma fl_sqrt_value:
  fixes p :: nat and k :: int
  assumes "2 ^ 52 < k" and "k < 2 ^ 53"
    and "(of_int k - 1 / 2)\<^sup>2 < v * 4 ^ p" and "v * 4 ^ p < (of_int k + 1 / 2)\<^sup>2"
  shows "fl (sqrt v) = of_int k / 2 ^ p"
proof -
  define y where "y = sqrt v * 2 ^ p"
  from assms(1) have "2 ^ 52 + 1 \<le> k" by simp
  then have "real_of_int (2 ^ 52 + 1) \<le> real_of_int k" by (simp only: of_int_le_iff)
  then have k52: "2 ^ 52 + 1 \<le> real_of_int k" by simp
  from assms(2) have "k + 1 \<le> 2 ^ 53" by simp
  then have "real_of_int (k + 1) \<le> real_of_int (2 ^ 53)" by (simp only: of_int_le_iff)
  then have k53: "real_of_int k + 1 \<le> 2 ^ 53" by simp
  have "0 \<le> (of_int k - 1 / 2 :: real)\<^sup>2" by simp
  with assms(3) have "0 < v * 4 ^ p" by linarith
  then have v: "0 < v" by (simp add: zero_less_mult_iff)
  have y0: "0 \<le> y" using v by (simp add: y_def)
  have "y\<^sup>2 = v * (2 ^ p)\<^sup>2"
    using v by (simp add: y_def power_mult_distrib)
  also have "((2::real) ^ p)\<^sup>2 = (2\<^sup>2) ^ p"
    by (simp only: power_mult [symmetric] mult.commute)
  also have "((2::real)\<^sup>2) ^ p = 4 ^ p"
    by simp
  finally have y2: "y\<^sup>2 = v * 4 ^ p" .
  have lo: "of_int k - 1 / 2 < y"
    using assms(3) y0 unfolding y2 [symmetric] by (rule power2_less_imp_less)
  have "0 \<le> (of_int k + 1 / 2 :: real)" using k52 by simp
  with assms(4) have hi: "y < of_int k + 1 / 2"
    unfolding y2 [symmetric] by (rule power2_less_imp_less)
  have r: "round_half_even (sqrt v * 2 ^ p) = k"
    using lo hi unfolding y_def by (rule round_half_even_unique)
  have abs: "\<bar>sqrt v\<bar> * 2 ^ p = y"
    using v by (simp add: y_def)
  show ?thesis
  proof (rule fl_value [where p = p])
    show "2 ^ 52 \<le> \<bar>sqrt v\<bar> * 2 ^ p" unfolding abs using lo k52 by simp
    show "\<bar>sqrt v\<bar> * 2 ^ p < 2 ^ 53" unfolding abs using hi k53 by simp
    show "real_of_int (round_half_even (sqrt v * 2 ^ p)) / 2 ^ p = real_of_int k / 2 ^ p"
      by (simp only: r)
  qed
qed

lemma fl_small_integers:
  "fl 2 = 2" "fl 3 = 3" "fl 4 = 4" "fl 6 = 6" "fl 8 = 8"
  by (rule fl_value [where p = 51], simp_all add: round_half_even_def Let_def)
     (rule fl_value [where p = 51], simp_all add: round_half_even_def Let_def,
      rule fl_value [where p = 50], simp_all add: round_half_even_def Let_def,
      rule fl_value [where p = 50], simp_all add: round_half_even_def Let_def,
      rule fl_value [where p = 49], simp_all add: round_half_even_def Let_def)

subsection \<open>The forecast\<close>

text \<open>
  C1. For monthly totals given most recent first, the forecast is 0 for no month and the
  month's total for one month. For two months it is the mean \<open>avg\<close> of both, and for three
  or more months \<open>avg + (recent_avg - avg) * 0.3\<close> with \<open>avg\<close> the mean of all months and
  \<open>recent_avg\<close> the mean of the first three, in each case rounded to 2 decimals: the result
  is the float of \<open>k / 100\<close> for the integer \<open>k\<close> nearest to 100 times that value (the even
  one at a tie). The means and the arithmetic are the interpreter's float operations.
\<close>

theorem predict_next_month_spending_spec:
  "let totals = map snd ms;
       avg = fl (sum_list totals / real (length totals));
       recent_avg = fl (sum_list (take 3 totals) / 3);
       raw = (if length ms = 2 then avg
              else fl (avg + fl (fl (recent_avg - avg) * fl (3 / 10))))
   in (ms = [] \<longrightarrow> predict_next_month_spending ms = Inr 0) \<and>
      (length ms = 1 \<longrightarrow> predict_next_month_spending ms = Inr (hd totals)) \<and>
      (2 \<le> length ms \<longrightarrow>
         (\<exists>k. predict_next_month_spending ms = Inr (fl (of_int k / 100)) \<and>
              \<bar>raw * 100 - of_int k\<bar> \<le> 1 / 2 \<and>
              (\<bar>raw * 100 - of_int k\<bar> = 1 / 2 \<longrightarrow> even k)))"
proof -
  define totals where "totals = map snd ms"
  define avg where "avg = fl (sum_list totals / real (length totals))"
  define recent_avg where "recent_avg = fl (sum_list (take 3 totals) / 3)"
  define raw where
    "raw = (if length ms = 2 then avg else fl (avg + fl (fl (recent_avg - avg) * fl (3 / 10))))"
  have none: "ms = [] \<Longrightarrow> predict_next_month_spending ms = Inr 0"
    by (simp add: predict_next_month_spending_def)
  have one: "length ms = 1 \<Longrightarrow> predict_next_month_spending ms = Inr (hd totals)"
    by (cases ms) (simp_all add: predict_next_month_spending_def totals_def)
  have run: "predict_next_month_spending ms = Inr (py_round raw 2)" if "2 \<le> length ms"
  proof (cases "length ms = 2")
    case True
    then have "ms \<noteq> []" by auto
    with True show ?thesis
      by (simp add: predict_next_month_spending_def mean_def raw_def avg_def totals_def)
  next
    case False
    with that have "3 \<le> length ms" by simp
    then have "ms \<noteq> []" "\<not> length ms < 2" "min (length ms) 3 = 3" "length ms \<noteq> 2"
      by auto
    with \<open>3 \<le> length ms\<close> show ?thesis
      by (simp add: predict_next_month_spending_def mean_def Let_def raw_def avg_def
          recent_avg_def totals_def)
  qed
  have many: "\<exists>k. predict_next_month_spending ms = Inr (fl (of_int k / 100)) \<and>
              \<bar>raw * 100 - of_int k\<bar> \<le> 1 / 2 \<and>
              (\<bar>raw * 100 - of_int k\<bar> = 1 / 2 \<longrightarrow> even k)"
    if "2 \<le> length ms"
    using run [OF that] round_half_even_nearest [of "raw * 100"]
    by (intro exI [of _ "round_half_even (raw * 100)"]) (simp add: py_round_def)
  from none one many show ?thesis
    unfolding Let_def totals_def [symmetric] avg_def [symmetric] recent_avg_def [symmetric]
      raw_def [symmetric]
    by blast
qed

text \<open>The documented examples give 0, 100, 150, 200 and 148.75. For the totals 1, 1, 2, 1
  the value before rounding is a float just below 1.275 (the exact arithmetic gives
  1.275), and the forecast is the float of 1.27.\<close>

theorem predict_next_month_spending_examples:
  "predict_next_month_spending [] = Inr 0 \<and>
   predict_next_month_spending [(''2026-11'', 100)] = Inr 100 \<and>
   predict_next_month_spending [(''2026-11'', 100), (''2026-10'', 200)] = Inr 150 \<and>
   predict_next_month_spending [(''2026-11'', 300), (''2026-10'', 200), (''2026-09'', 100)]
     = Inr 200 \<and>
   predict_next_month_spending
     [(''2026-11'', 100), (''2026-10'', 50), (''2026-09'', 200), (''2026-08'', 300)]
     = Inr (14875 / 100) \<and>
   predict_next_month_spending
     [(''2026-11'', 1), (''2026-10'', 1), (''2026-09'', 2), (''2026-08'', 1)]
     = Inr (fl (127 / 100)) \<and>
   \<bar>fl (127 / 100) - 127 / 100\<bar> < 1 / 10 ^ 15"
proof -
    have f1: "fl (150) = 150"
      by (rule fl_value [where p = 45]) (simp_all add: round_half_even_def Let_def)
    have f2: "fl (200) = 200"
      by (rule fl_value [where p = 45]) (simp_all add: round_half_even_def Let_def)
    have f3: "fl (3 / 10) = 5404319552844595 / 18014398509481984"
      by (rule fl_value [where p = 54]) (simp_all add: round_half_even_def Let_def)
    have f4: "fl (325 / 2) = 325 / 2"
      by (rule fl_value [where p = 45]) (simp_all add: round_half_even_def Let_def)
    have f5: "fl (350 / 3) = 8209686820727467 / 70368744177664"
      by (rule fl_value [where p = 46]) (simp_all add: round_half_even_def Let_def)
    have f6: "fl (- (3225234108142933 / 70368744177664)) = - (3225234108142933 / 70368744177664)"
      by (rule fl_value [where p = 47]) (simp_all add: round_half_even_def Let_def)
    have f7: "fl (- (17430195753138151824092996497135 / 1267650600228229401496703205376)) = - (7740561859543039 / 562949953421312)"
      by (rule fl_value [where p = 49]) (simp_all add: round_half_even_def Let_def)
    have f8: "fl (83738805571420161 / 562949953421312) = 595 / 4"
      by (rule fl_value [where p = 45]) (simp_all add: round_half_even_def Let_def)
    have f9: "fl (595 / 4) = 595 / 4"
      by (rule fl_value [where p = 45]) (simp_all add: round_half_even_def Let_def)
    have f10: "fl (5 / 4) = 5 / 4"
      by (rule fl_value [where p = 52]) (simp_all add: round_half_even_def Let_def)
    have f11: "fl (4 / 3) = 6004799503160661 / 4503599627370496"
      by (rule fl_value [where p = 52]) (simp_all add: round_half_even_def Let_def)
    have f12: "fl (375299968947541 / 4503599627370496) = 375299968947541 / 4503599627370496"
      by (rule fl_value [where p = 56]) (simp_all add: round_half_even_def Let_def)
    have f13: "fl (2028240960365165165894880390895 / 81129638414606681695789005144064) = 7205759403792787 / 288230376151711744"
      by (rule fl_value [where p = 58]) (simp_all add: round_half_even_def Let_def)
    have f14: "fl (367493729593432467 / 288230376151711744) = 2871044762448691 / 2251799813685248"
      by (rule fl_value [where p = 52]) (simp_all add: round_half_even_def Let_def)
    have f15: "fl (127 / 100) = 2859785763380265 / 2251799813685248"
      by (rule fl_value [where p = 52]) (simp_all add: round_half_even_def Let_def)
  note facts = f1 f2 f3 f4 f5 f6 f7 f8 f9 f10 f11 f12 f13 f14 f15
  have e0: "predict_next_month_spending [] = Inr 0"
    by (simp add: predict_next_month_spending_def)
  have e1: "predict_next_month_spending [(''2026-11'', 100)] = Inr 100"
    by (simp add: predict_next_month_spending_def)
  have e2: "predict_next_month_spending [(''2026-11'', 100), (''2026-10'', 200)] = Inr 150"
    by (simp add: predict_next_month_spending_def mean_def py_round_def round_half_even_def
        Let_def facts)
  have e3: "predict_next_month_spending
      [(''2026-11'', 300), (''2026-10'', 200), (''2026-09'', 100)] = Inr 200"
    by (simp add: predict_next_month_spending_def mean_def py_round_def round_half_even_def
        Let_def facts)
  have e4: "predict_next_month_spending
      [(''2026-11'', 100), (''2026-10'', 50), (''2026-09'', 200), (''2026-08'', 300)]
      = Inr (14875 / 100)"
    by (simp add: predict_next_month_spending_def mean_def py_round_def round_half_even_def
        Let_def facts)
  have e5: "predict_next_month_spending
      [(''2026-11'', 1), (''2026-10'', 1), (''2026-09'', 2), (''2026-08'', 1)]
      = Inr (fl (127 / 100))"
    by (simp add: predict_next_month_spending_def mean_def py_round_def round_half_even_def
        Let_def facts)
  have e6: "\<bar>fl (127 / 100) - 127 / 100\<bar> < 1 / 10 ^ 15"
    by (simp add: facts)
  show ?thesis
    using predict_next_month_spending_spec [of "[]"]
      predict_next_month_spending_spec [of "[(''2026-11'', 100)]"]
      predict_next_month_spending_spec
        [of "[(''2026-11'', 1), (''2026-10'', 1), (''2026-09'', 2), (''2026-08'', 1)]"]
    by (simp only: e0 e1 e2 e3 e4 e5 e6 simp_thms)
qed

subsection \<open>The ledger query\<close>

lemma selected_all [simp]: "selected None None None e"
  by (simp add: selected_def)

lemma get_all_expenses_unfiltered:
  "get_all_expenses db None None None = order_by_date_desc (expenses db)"
  by (simp add: get_all_expenses_def)

lemma mset_insert_by_date: "mset (insert_by_date e xs) = add_mset e (mset xs)"
  by (induction xs) auto

lemma mset_order_by_date_desc: "mset (order_by_date_desc xs) = mset xs"
  by (induction xs) (auto simp: mset_insert_by_date)

lemma length_order_by_date_desc [simp]: "length (order_by_date_desc xs) = length xs"
  using mset_order_by_date_desc [of xs] by (metis size_mset)

lemma set_order_by_date_desc [simp]: "set (order_by_date_desc xs) = set xs"
  using mset_order_by_date_desc [of xs] by (metis set_mset_mset)

lemma set_insert_by_date: "set (insert_by_date e xs) = insert e (set xs)"
  using mset_insert_by_date [of e xs] by (metis set_mset_mset set_mset_add_mset_insert)

lemma sorted_insert_by_date:
  "sorted_wrt (\<lambda>a b. e_date b \<le> e_date a) xs \<Longrightarrow>
   sorted_wrt (\<lambda>a b. e_date b \<le> e_date a) (insert_by_date e xs)"
  by (induction xs) (auto simp: set_insert_by_date)

lemma sorted_order_by_date_desc:
  "sorted_wrt (\<lambda>a b. e_date b \<le> e_date a) (order_by_date_desc xs)"
  by (induction xs) (auto simp: sorted_insert_by_date)

lemma sum_list_map_mset:
  fixes f :: "'a \<Rightarrow> real"
  shows "mset xs = mset ys \<Longrightarrow> sum_list (map f xs) = sum_list (map f ys)"
  by (metis mset_map sum_mset_sum_list)

lemma get_all_expenses_date_descending:
  "date_descending db (get_all_expenses db None None None)"
  by (simp add: date_descending_def get_all_expenses_unfiltered mset_order_by_date_desc
      sorted_order_by_date_desc)

subsection \<open>Anomaly detection\<close>

lemma scan_anomalies_filter:
  "scan_anomalies m sd xs =
     map (\<lambda>e. (e, anomaly_reason (e_amount e) m))
       (filter (\<lambda>e. 0 < sd \<and> fl (m + fl (2 * sd)) < e_amount e) xs)"
  by (induction xs) auto

text \<open>
  C2 (as amended). Let the query return the rows of a ledger of at least 10 expenses in
  any order of descending date. With the mean and the Bessel-corrected standard deviation
  taken over all amounts, an expense is flagged exactly when it is among the first 20
  returned rows and, the standard deviation being positive, its amount is strictly
  greater than \<open>mean + 2 * stdev\<close>; the reason of a flagged expense gives its amount and
  the mean, each with 2 decimals. The mean, the standard deviation and the sum are the
  interpreter's floats.
\<close>

theorem detect_anomalies_flags:
  assumes "date_descending db exps" and "10 \<le> length exps"
  shows "let amounts = map e_amount (expenses db);
             n = length (expenses db);
             mu = sum_list amounts / real n;
             m = fl mu;
             sd = fl (sqrt (sum_list (map (\<lambda>x. (x - mu)\<^sup>2) amounts) / real (n - 1)))
         in detect_anomalies_on exps =
              Inr (map (\<lambda>e. (e, ''Unusually high amount ($'' @ format_fixed 2 (e_amount e) @
                                 '' vs average $'' @ format_fixed 2 m @ '')''))
                    (filter (\<lambda>e. 0 < sd \<and> fl (m + fl (2 * sd)) < e_amount e)
                       (take 20 exps)))"
proof -
  from assms(1) have perm: "mset exps = mset (expenses db)"
    by (simp add: date_descending_def)
  then have len: "length exps = length (expenses db)"
    by (metis size_mset)
  have sums: "sum_list (map f (map e_amount exps)) = sum_list (map f (map e_amount (expenses db)))"
    for f :: "real \<Rightarrow> real"
    unfolding map_map using perm by (rule sum_list_map_mset)
  have total: "sum_list (map e_amount exps) = sum_list (map e_amount (expenses db))"
    using perm by (rule sum_list_map_mset)
  from assms(2) have ne: "map e_amount exps \<noteq> []" "\<not> length exps < 10" "1 < length exps"
    "\<not> length exps < 2"
    by auto
  define mu where "mu = sum_list (map e_amount (expenses db)) / real (length (expenses db))"
  define sd where "sd = fl (sqrt (sum_list (map (\<lambda>x. (x - mu)\<^sup>2) (map e_amount (expenses db)))
      / real (length (expenses db) - 1)))"
  have mean_eq: "mean (map e_amount exps) = Inr (fl mu)"
    using ne(1) by (simp add: mean_def total len mu_def)
  have stdev_eq: "stdev (map e_amount exps) = Inr sd"
    using ne(4) sums [of "\<lambda>x. (x - mu)\<^sup>2"]
    by (simp add: stdev_def Let_def total len mu_def [symmetric] sd_def)
  have "detect_anomalies_on exps =
      Inr (map (\<lambda>e. (e, anomaly_reason (e_amount e) (fl mu)))
            (filter (\<lambda>e. 0 < sd \<and> fl (fl mu + fl (2 * sd)) < e_amount e) (take 20 exps)))"
    using ne(2,3)
    by (simp add: detect_anomalies_on_def Let_def mean_eq stdev_eq scan_anomalies_filter)
  then show ?thesis
    unfolding Let_def mu_def [symmetric] sd_def [symmetric] anomaly_reason_def .
qed

text \<open>The amounts 1 (nine times) and 17.75 have the exact mean 2.675; the float mean lies
  just below it and is printed as 2.67.\<close>

theorem detect_anomalies_flags_witness:
  "date_descending tie_ledger (get_all_expenses tie_ledger None None None) \<and>
   10 \<le> length (get_all_expenses tie_ledger None None None) \<and>
   mean (map e_amount (expenses tie_ledger)) = Inr (fl (2675 / 1000)) \<and>
   fl (2675 / 1000) < 2675 / 1000 \<and>
   detect_anomalies tie_ledger =
     Inr [(\<lparr>e_id = 10, e_amount = 71 / 4, e_description = ''item'', e_category = ''shopping'',
            e_date = ''2026-10-10'', e_notes = Some '''', e_created_at = ''2026-10-10''\<rparr>,
           ''Unusually high amount ($17.75 vs average $2.67)'')] \<and>
   detect_anomalies outlier_ledger =
     Inr [(\<lparr>e_id = 10, e_amount = 11, e_description = ''item'', e_category = ''shopping'',
            e_date = ''2026-10-10'', e_notes = Some '''', e_created_at = ''2026-10-10''\<rparr>,
           ''Unusually high amount ($11.00 vs average $2.00)'')]"
proof -
  have dd: "date_descending tie_ledger (get_all_expenses tie_ledger None None None)"
    by (rule get_all_expenses_date_descending)
  have len: "10 \<le> length (get_all_expenses tie_ledger None None None)"
    by (simp add: get_all_expenses_unfiltered tie_ledger_def sample_ledger_def)
  have f1: "fl (107 / 40) = 3011782250804019 / 1125899906842624"
    by (rule fl_value [where p = 51]) (simp_all add: round_half_even_def Let_def)
  have f2: "fl (1490920901503775 / 140737488355328) = 1490920901503775 / 140737488355328"
    by (rule fl_value [where p = 49]) (simp_all add: round_half_even_def Let_def)
  have f3: "fl (14939149462834219 / 1125899906842624) = 3734787365708555 / 281474976710656"
    by (rule fl_value [where p = 49]) (simp_all add: round_half_even_def Let_def)
  have "fl (sqrt (4489 / 160)) = real_of_int 5963683606015100 / 2 ^ 50"
    by (rule fl_sqrt_value) (simp_all add: power2_eq_square)
  then have sq: "fl (sqrt (4489 / 160)) = 1490920901503775 / 281474976710656"
    by simp
  have m: "mean (map e_amount (expenses tie_ledger)) = Inr (fl (2675 / 1000))"
    by (simp add: mean_def tie_ledger_def sample_ledger_def)
  have below: "fl (2675 / 1000) < 2675 / 1000"
    by (simp add: f1)
  have tie: "detect_anomalies tie_ledger =
     Inr [(\<lparr>e_id = 10, e_amount = 71 / 4, e_description = ''item'', e_category = ''shopping'',
            e_date = ''2026-10-10'', e_notes = Some '''', e_created_at = ''2026-10-10''\<rparr>,
           ''Unusually high amount ($17.75 vs average $2.67)'')]"
    by (simp add: detect_anomalies_def detect_anomalies_on_def get_all_expenses_def
        tie_ledger_def sample_ledger_def mean_def stdev_def Let_def anomaly_reason_def
        format_fixed_def round_half_even_def show_nat_numeral digit_char_def f1 f2 f3 sq
        power2_eq_square)
  have out: "detect_anomalies outlier_ledger =
     Inr [(\<lparr>e_id = 10, e_amount = 11, e_description = ''item'', e_category = ''shopping'',
            e_date = ''2026-10-10'', e_notes = Some '''', e_created_at = ''2026-10-10''\<rparr>,
           ''Unusually high amount ($11.00 vs average $2.00)'')]"
    by (simp add: detect_anomalies_def detect_anomalies_on_def get_all_expenses_def
        outlier_ledger_def sample_ledger_def mean_def stdev_def Let_def anomaly_reason_def
        format_fixed_def round_half_even_def show_nat_numeral digit_char_def
        fl_small_integers power2_eq_square)
  show ?thesis
    using detect_anomalies_flags [OF dd len]
    by (simp only: dd len m below tie out simp_thms)
qed

text \<open>
  With \<open>\<ge>\<close> in place of \<open>>\<close> the statement fails: in \<open>boundary_ledger\<close> the mean is 2 and
  the standard deviation is 2, the most recent expense has the amount \<open>6 = 2 + 2 * 2\<close>,
  and nothing is flagged.
\<close>

theorem detect_anomalies_boundary:
  "10 \<le> length (expenses boundary_ledger) \<and>
   mean (map e_amount (get_all_expenses boundary_ledger None None None)) = Inr 2 \<and>
   stdev (map e_amount (get_all_expenses boundary_ledger None None None)) = Inr 2 \<and>
   hd (get_all_expenses boundary_ledger None None None)
     \<in> set (take 20 (get_all_expenses boundary_ledger None None None)) \<and>
   2 + 2 * 2 \<le> e_amount (hd (get_all_expenses boundary_ledger None None None)) \<and>
   detect_anomalies boundary_ledger = Inr []"
  by (simp add: boundary_ledger_def sample_ledger_def get_all_expenses_def Let_def
      detect_anomalies_def detect_anomalies_on_def mean_def stdev_def fl_small_integers
      power2_eq_square)

text \<open>
  C3. For a ledger of fewer than 10 expenses, whatever their amounts, no anomaly is
  reported.
\<close>

theorem detect_anomalies_insufficient_sample:
  "length (expenses db) < 10 \<Longrightarrow> detect_anomalies db = Inr []"
  by (simp add: detect_anomalies_def detect_anomalies_on_def get_all_expenses_unfiltered)

theorem detect_anomalies_insufficient_sample_witness:
  "length (expenses small_ledger) < 10 \<and> detect_anomalies small_ledger = Inr []"
  using detect_anomalies_insufficient_sample [of small_ledger]
  by (simp add: small_ledger_def sample_ledger_def)

subsection \<open>Deleting all expenses\<close>

text \<open>
  C9. Deleting all expenses leaves the budgets table as it was: every category's ceiling
  reads the same afterwards, while the expenses table and its AUTOINCREMENT counter are
  cleared and the number of deleted rows is returned.
\<close>

theorem delete_all_expenses_keeps_budgets:
  "get_budget (snd (delete_all_expenses db)) category = get_budget db category \<and>
   get_all_budgets (snd (delete_all_expenses db)) = get_all_budgets db \<and>
   budgets (snd (delete_all_expenses db)) = budgets db \<and>
   expenses (snd (delete_all_expenses db)) = [] \<and>
   sqlite_sequence (snd (delete_all_expenses db)) = None \<and>
   fst (delete_all_expenses db) = length (expenses db)"
  by (simp add: delete_all_expenses_def get_budget_def get_all_budgets_def Let_def)

subsection \<open>The categorizer\<close>

lemma starts_with_prefix: "starts_with k s = prefix k s"
  by (induction k s rule: starts_with.induct) auto

lemma contains_sublist: "contains k s = sublist k s"
  by (induction s) (auto simp: starts_with_prefix sublist_Cons_right)

lemma any_keyword_iff: "any_keyword ks d = (\<exists>k \<in> set ks. sublist k d)"
  by (induction ks) (auto simp: contains_sublist)

lemma first_category_find:
  "first_category kws d =
     (case find (\<lambda>(c, ks). \<exists>k \<in> set ks. sublist k d) kws of
        None \<Rightarrow> ''other''
      | Some (c, ks) \<Rightarrow> c)"
  by (induction kws) (auto simp: any_keyword_iff)

text \<open>
  C6. \<open>smart_categorize\<close> lowercases the description and returns the first category, in the
  order food, transport, shopping, entertainment, utilities, health, education, one of
  whose keywords is a substring of the lowercased description, and \<open>other\<close> when no
  keyword of any category occurs. The result depends on the description only, and the
  first category in declaration order wins, whatever the lengths of the matching keywords.
\<close>

theorem smart_categorize_first_match:
  "smart_categorize description =
     (case find (\<lambda>(category, keywords). \<exists>keyword \<in> set keywords. sublist keyword (lower description))
              CATEGORY_KEYWORDS of
        None \<Rightarrow> ''other''
      | Some (category, keywords) \<Rightarrow> category) \<and>
   map fst CATEGORY_KEYWORDS =
     [''food'', ''transport'', ''shopping'', ''entertainment'', ''utilities'', ''health'',
      ''education'']"
  by (simp add: smart_categorize_def first_category_find) (simp add: CATEGORY_KEYWORDS_def)

theorem smart_categorize_first_match_witness:
  "lower ''Gas and ELECTRICITY'' = ''gas and electricity'' \<and>
   smart_categorize ''Gas and ELECTRICITY'' = ''transport'' \<and>
   smart_categorize ''Bookstore'' = ''shopping'' \<and>
   smart_categorize ''Monthly rent'' = ''other''"
  using smart_categorize_first_match [of "''Gas and ELECTRICITY''"]
    smart_categorize_first_match [of "''Bookstore''"]
    smart_categorize_first_match [of "''Monthly rent''"]
  by (simp add: contains_sublist [symmetric] lower_def lower_char_def CATEGORY_KEYWORDS_def)

subsection \<open>Adding an expense\<close>








text \<open>Every stored amount is positive in the empty database, and the operations that
  write to the database keep it so.\<close>

lemma positive_amounts_kept:
  "list_all (\<lambda>x. 0 < e_amount x) (expenses empty_database)"
  "list_all (\<lambda>x. 0 < e_amount x) (expenses db) \<Longrightarrow>
   list_all (\<lambda>x. 0 < e_amount x) (expenses (snd (add_expense str_to_float now db data)))"
  "list_all (\<lambda>x. 0 < e_amount x) (expenses db) \<Longrightarrow>
   list_all (\<lambda>x. 0 < e_amount x) (expenses (snd (delete_all_expenses db)))"
  "list_all (\<lambda>x. 0 < e_amount x) (expenses db) \<Longrightarrow>
   list_all (\<lambda>x. 0 < e_amount x) (expenses (snd (db_set_budget now db category amount)))"
  by (auto simp: empty_database_def add_expense_def db_add_expense_def delete_all_expenses_def
      db_set_budget_def Let_def
      split: option.splits sum.splits py_error.splits jtext.splits)





text \<open>
  Rejected requests: a missing amount or description, an amount string that does not
  parse, and an amount that is not positive each get a 400 response; and no outcome
  other than the 201 response changes the database.
\<close>

lemma add_expense_rejects:
  "add_expense str_to_float now db None
     = (Http 400 (ErrorBody ''Amount and description are required''), db)"
  "p_amount d = None \<Longrightarrow> add_expense str_to_float now db (Some d)
     = (Http 400 (ErrorBody ''Amount and description are required''), db)"
  "p_description d = None \<Longrightarrow> add_expense str_to_float now db (Some d)
     = (Http 400 (ErrorBody ''Amount and description are required''), db)"
  "p_amount d = Some (JStr t) \<Longrightarrow> p_description d \<noteq> None \<Longrightarrow> str_to_float t = None \<Longrightarrow>
   add_expense str_to_float now db (Some d)
     = (Http 400 (ErrorBody ''Invalid amount format''), db)"
  "p_amount d = Some a \<Longrightarrow> p_description d \<noteq> None \<Longrightarrow> py_float str_to_float a = Inr amount \<Longrightarrow>
   amount \<le> 0 \<Longrightarrow>
   add_expense str_to_float now db (Some d)
     = (Http 400 (ErrorBody ''Amount must be positive''), db)"
  by (auto simp: add_expense_def split: option.splits)

lemma add_expense_no_partial_mutation:
  "add_expense str_to_float now db data = (outcome, db') \<Longrightarrow>
   (\<And>e auto_categorized alert. outcome \<noteq> Http 201 (Created e auto_categorized alert)) \<Longrightarrow>
   db' = db"
  by (auto simp: add_expense_def db_add_expense_def Let_def
      split: option.splits sum.splits py_error.splits if_splits jtext.splits)

text \<open>
  C7. Every request with a missing, non-positive or non-numeric amount, or a missing
  description, is to be rejected with a 400 response and an unchanged ledger. A JSON
  \<open>null\<close> amount is not: \<open>float(None)\<close> raises TypeError, which the handler for ValueError
  does not catch, so the request ends in an unhandled exception (the ledger is unchanged).
\<close>

theorem add_expense_null_amount_unhandled:
  "add_expense str_to_float now db
     (Some \<lparr>p_amount = Some JNull, p_description = Some (TStr ''Lunch''), p_category = None,
            p_notes = None, p_date = None\<rparr>)
   = (Unhandled TypeError, db)"
  by (simp add: add_expense_def)


subsection \<open>The budget-status view\<close>

text \<open>The three bands of the view, on the spend the query returns.\<close>

lemma budget_entry_bands:
  "s_status (budget_entry db current_month_start category budget) =
     (let spent = get_total_spent db (Some category) (Some current_month_start) None;
          percentage = (if budget \<le> 0 then 0 else spent / budget * 100)
      in if percentage \<le> 80 then ''good''
         else if percentage \<le> 100 then ''warning'' else ''exceeded'')"
  by (simp add: budget_entry_def Let_def)

text \<open>
  C5. The spend the view classifies is every expense of the category dated on or after
  the first day of the current month, so an expense dated in a later month counts too:
  with a ceiling of 100 and one expense of 500 dated 2026-12-15, the view for 2026-11
  reports 500 spent and \<open>exceeded\<close>, though no expense is dated in 2026-11.
\<close>

theorem budget_status_counts_later_months:
  "get_budget_status ''2026-11'' future_ledger =
     Budgets ''2026-11''
       [(''food'', \<lparr>s_budget = 100, s_spent = 500, s_remaining = - 400, s_percentage = 500,
                    s_status = ''exceeded''\<rparr>)] \<and>
   filter (\<lambda>e. take 7 (e_date e) = ''2026-11'') (expenses future_ledger) = []"
proof -
  have f1: "fl (500) = 500"
    by (rule fl_value [where p = 44]) (simp_all add: round_half_even_def Let_def)
  have f2: "fl (- 400) = - 400"
    by (rule fl_value [where p = 44]) (simp_all add: round_half_even_def Let_def)
  show ?thesis
    by (simp add: get_budget_status_def get_all_budgets_def budget_entry_def future_ledger_def
        get_total_spent_def selected_def py_round_def round_half_even_def Let_def f1 f2)
qed

subsection \<open>Insights\<close>

text \<open>
  C8. The weekly-trend insight is to be emitted only if an expense is dated within the
  trailing 7 days, and the savings insight whenever there are more than 5 expenses. The
  code keeps every expense dated later than 7 days ago, with no upper bound: on
  2026-11-03 a ledger whose only expense is dated 2026-12-15 gets the trend insight. And
  a date that does not parse makes the function raise ValueError, so a ledger of 6
  expenses with such a date gets no insight at all.
\<close>

theorem weekly_trend_counts_later_dates:
  "expenses future_ledger = sample_rows 1 [(500, ''food'', ''2026-12-15'')] \<and>
   sample_fromisoformat ''2026-12-15'' = Some (Naive (348 * day)) \<and>
   noon_2026_11_03 < 348 * day \<and>
   generate_insights sample_fromisoformat noon_2026_11_03 future_ledger =
     Inr [\<lparr>i_type = ''category_insight'',
           i_message = ''Your highest spending is on food ($500.00, 100.0% of total)'',
           i_icon = ChartIcon\<rparr>,
          \<lparr>i_type = ''trend'',
           i_message = ''You've spent $500.00 this week ($71.43/day average)'',
           i_icon = TrendIcon\<rparr>] \<and>
   5 < length (expenses undated_ledger) \<and>
   generate_insights sample_fromisoformat noon_2026_11_03 undated_ledger = Inl ValueError"
proof -
  have f1: "fl (500) = 500"
    by (rule fl_value [where p = 44]) (simp_all add: round_half_even_def Let_def)
  have f2: "fl (1) = 1"
    by (rule fl_value [where p = 52]) (simp_all add: round_half_even_def Let_def)
  have f3: "fl (100) = 100"
    by (rule fl_value [where p = 46]) (simp_all add: round_half_even_def Let_def)
  have f4: "fl (500 / 7) = 5026338869833143 / 70368744177664"
    by (rule fl_value [where p = 46]) (simp_all add: round_half_even_def Let_def)
  have f5: "fl (60) = 60"
    by (rule fl_value [where p = 47]) (simp_all add: round_half_even_def Let_def)
  show ?thesis
    by (simp add: generate_insights_def get_all_expenses_def get_spending_by_category_def
        category_row_def sample_ledger_def future_ledger_def undated_ledger_def
        sample_fromisoformat_def noon_2026_11_03_def day_def seven_days_def py_sum_def
        Let_def category_insight_def trend_insight_def
        format_fixed_def round_half_even_def show_nat_numeral digit_char_def
        f1 f2 f3 f4 f5)
qed

end
